theory Spec2Isabelle
  imports Main
begin

section \<open>Python values and library functions used by synth.py\<close>

text \<open>
  A Python \<^verbatim>\<open>str\<close> is modelled by the bytes of its UTF-8 encoding (\<open>string\<close>).
  A parameter that may be absent is an \<open>option\<close>: \<open>None\<close> is Python's \<open>None\<close>.
  Truthiness follows Python: \<open>None\<close>, \<open>False\<close> and the empty string are falsy.
\<close>

definition truthy :: "bool option \<Rightarrow> bool" where
  "truthy b = (case b of None \<Rightarrow> False | Some v \<Rightarrow> v)"

definition str_truthy :: "string option \<Rightarrow> bool" where
  "str_truthy s = (case s of None \<Rightarrow> False | Some v \<Rightarrow> v \<noteq> [])"

text \<open>\<^verbatim>\<open>x or d\<close> for an optional string \<open>x\<close> and \<^verbatim>\<open>list(x or [])\<close> for an optional list.\<close>

definition str_or :: "string option \<Rightarrow> string \<Rightarrow> string" where
  "str_or s d = (case s of None \<Rightarrow> d | Some v \<Rightarrow> if v = [] then d else v)"

definition list_or_empty :: "string list option \<Rightarrow> string list" where
  "list_or_empty xs = (case xs of None \<Rightarrow> [] | Some v \<Rightarrow> v)"

text \<open>The code points of a string: in UTF-8 a code point is a byte that is not a
  continuation byte (\<open>10xxxxxx\<close>), followed by its continuation bytes.\<close>

definition is_continuation :: "char \<Rightarrow> bool" where
  "is_continuation c = (digit7 c \<and> \<not> digit6 c)"

function code_points :: "string \<Rightarrow> string list" where
  "code_points [] = []"
| "code_points (c # cs) =
     (c # takeWhile is_continuation cs) # code_points (dropWhile is_continuation cs)"
  by pat_completeness auto
termination
  by (relation "measure length") (auto simp add: length_dropWhile_le less_Suc_eq_le)

text \<open>\<^verbatim>\<open>str.isspace\<close> of one code point, given by its encoding: U+0009 to U+000D,
  U+001C to U+0020, U+0085, U+00A0, U+1680, U+2000 to U+200A, U+2028, U+2029, U+202F,
  U+205F and U+3000.\<close>

definition is_space :: "string \<Rightarrow> bool" where
  "is_space cp = (cp \<in> set
     [[CHR 0x09], [CHR 0x0A], [CHR 0x0B], [CHR 0x0C], [CHR 0x0D],
      [CHR 0x1C], [CHR 0x1D], [CHR 0x1E], [CHR 0x1F], [CHR 0x20],
      [CHR 0xC2, CHR 0x85], [CHR 0xC2, CHR 0xA0],
      [CHR 0xE1, CHR 0x9A, CHR 0x80],
      [CHR 0xE2, CHR 0x80, CHR 0x80], [CHR 0xE2, CHR 0x80, CHR 0x81],
      [CHR 0xE2, CHR 0x80, CHR 0x82], [CHR 0xE2, CHR 0x80, CHR 0x83],
      [CHR 0xE2, CHR 0x80, CHR 0x84], [CHR 0xE2, CHR 0x80, CHR 0x85],
      [CHR 0xE2, CHR 0x80, CHR 0x86], [CHR 0xE2, CHR 0x80, CHR 0x87],
      [CHR 0xE2, CHR 0x80, CHR 0x88], [CHR 0xE2, CHR 0x80, CHR 0x89],
      [CHR 0xE2, CHR 0x80, CHR 0x8A],
      [CHR 0xE2, CHR 0x80, CHR 0xA8], [CHR 0xE2, CHR 0x80, CHR 0xA9],
      [CHR 0xE2, CHR 0x80, CHR 0xAF], [CHR 0xE2, CHR 0x81, CHR 0x9F],
      [CHR 0xE3, CHR 0x80, CHR 0x80]])"

text \<open>\<^verbatim>\<open>str.strip()\<close>: the whitespace code points are removed from both ends.\<close>

definition strip :: "string \<Rightarrow> string" where
  "strip s = concat (rev (dropWhile is_space (rev (dropWhile is_space (code_points s)))))"

text \<open>\<^verbatim>\<open>os.path.join(a, b)\<close> of posixpath, for two components: an absolute \<open>b\<close> replaces
  \<open>a\<close>; otherwise a separator is inserted unless \<open>a\<close> is empty or already ends in one.\<close>

fun startswith_sep :: "string \<Rightarrow> bool" where
  "startswith_sep [] = False"
| "startswith_sep (c # cs) = (c = CHR ''/'')"

definition endswith_sep :: "string \<Rightarrow> bool" where
  "endswith_sep s = startswith_sep (rev s)"

definition path_join :: "string \<Rightarrow> string \<Rightarrow> string" where
  "path_join a b =
     (if startswith_sep b then b
      else if a = [] \<or> endswith_sep a then a @ b
      else a @ ''/'' @ b)"

text \<open>A text file opened for writing is the list of the chunks written to it, each of
  them by \<^verbatim>\<open>fp.write(chunk + "\n")\<close>; its content is their concatenation.\<close>

definition nl :: char where
  "nl = CHR 0x0A"

definition file_content :: "string list \<Rightarrow> string" where
  "file_content ws = concat (map (\<lambda>w. w @ [nl]) ws)"

section \<open>Data model\<close>

text \<open>An input file set, with the attributes \<^verbatim>\<open>_collect_rtl\<close> reads
  (\<open>fs_type\<close> is \<^verbatim>\<open>fs.type\<close>).\<close>

record fileset =
  fs_type :: string
  fs_filetype :: string
  fs_basedir :: string
  fs_files :: "string list"
  fs_incdirs :: "string list"

text \<open>The \<^verbatim>\<open>FileSet\<close> a task constructs for its output, with the keyword arguments the
  tasks pass.\<close>

record FileSet =
  src :: string
  filetype :: string
  basedir :: string
  files :: "string list"
  attributes :: "string list"

text \<open>\<^verbatim>\<open>TaskDataResult(status=..., output=...)\<close>; \<open>outputs\<close> is its \<^verbatim>\<open>output\<close> list.\<close>

record TaskDataResult =
  status :: int
  outputs :: "FileSet list"

text \<open>\<^verbatim>\<open>input.params\<close>: the union of the attributes the tasks read (\<open>top_p\<close> is
  \<^verbatim>\<open>params.top\<close>).\<close>

record params =
  top_p :: "string option"
  output_format :: "string option"
  args :: "string list option"
  device :: "string option"
  family :: "string option"
  flatten :: "bool option"
  nofsm :: "bool option"
  noabc :: "bool option"
  retime :: "bool option"
  dff :: "bool option"
  nocarry :: "bool option"
  nobram :: "bool option"
  dsp :: "bool option"
  abc9 :: "bool option"
  nodsp :: "bool option"
  noiopad :: "bool option"
  noclkbuf :: "bool option"
  bv :: "bool option"
  mem :: "bool option"
  wires :: "bool option"
  script :: string
  read_rtl :: "bool option"

record task_input =
  name :: string
  rundir :: string
  inputs :: "fileset list"
  params :: params

text \<open>What the environment answers during one invocation: the exit status that
  \<^verbatim>\<open>await ctxt.exec(cmd, logfile=...)\<close> returns, and \<^verbatim>\<open>os.path.isfile\<close> once the
  tool has run.\<close>

record world =
  exec_status :: int
  isfile :: "string \<Rightarrow> bool"

text \<open>Everything one invocation does: the script file it writes, the command it runs and
  the result it returns.\<close>

record task_run =
  script_path :: string
  script_content :: string
  cmd :: "string list"
  logfile :: string
  result :: TaskDataResult

section \<open>Input classification: \<^verbatim>\<open>_collect_rtl\<close>\<close>

type_synonym rtl = "(string \<times> bool) list \<times> string list \<times> string list"

text \<open>\<^verbatim>\<open>for x in xs: acc.append(g(x))\<close>\<close>

fun append_each :: "('a \<Rightarrow> 'b) \<Rightarrow> 'a list \<Rightarrow> 'b list \<Rightarrow> 'b list" where
  "append_each g [] acc = acc"
| "append_each g (x # xs) acc = append_each g xs (acc @ [g x])"

text \<open>The body of the loop over \<^verbatim>\<open>input.inputs\<close>, on the three lists built so far.\<close>

definition collect_fs :: "fileset \<Rightarrow> rtl \<Rightarrow> rtl" where
  "collect_fs fs acc =
     (case acc of (sources, incdirs, liberty_files) \<Rightarrow>
        if fs_type fs \<noteq> ''std.FileSet'' then acc
        else if fs_filetype fs = ''verilogSource'' \<or> fs_filetype fs = ''systemVerilogSource'' then
          (append_each (\<lambda>f. (path_join (fs_basedir fs) f, fs_filetype fs = ''systemVerilogSource''))
             (fs_files fs) sources,
           append_each (\<lambda>d. path_join (fs_basedir fs) d) (fs_incdirs fs) incdirs,
           liberty_files)
        else if fs_filetype fs = ''verilogIncDir'' then
          (sources,
           if strip (fs_basedir fs) \<noteq> [] then incdirs @ [fs_basedir fs] else incdirs,
           liberty_files)
        else if fs_filetype fs = ''verilogInclude'' \<or> fs_filetype fs = ''systemVerilogInclude'' then
          (sources,
           append_each (\<lambda>d. path_join (fs_basedir fs) d) (fs_incdirs fs) incdirs,
           liberty_files)
        else if fs_filetype fs = ''libertyLib'' then
          (sources,
           incdirs,
           (let libs = append_each (\<lambda>f. path_join (fs_basedir fs) f) (fs_files fs) liberty_files
            in if fs_files fs = [] \<and> strip (fs_basedir fs) \<noteq> [] then libs @ [fs_basedir fs]
               else libs))
        else acc)"

fun collect_loop :: "fileset list \<Rightarrow> rtl \<Rightarrow> rtl" where
  "collect_loop [] acc = acc"
| "collect_loop (fs # rest) acc = collect_loop rest (collect_fs fs acc)"

definition collect_rtl :: "fileset list \<Rightarrow> rtl" where
  "collect_rtl ins = collect_loop ins ([], [], [])"

section \<open>Directive composition\<close>

text \<open>\<^verbatim>\<open>_write_read_cmds(fp, sources, incdirs)\<close>: the chunks it writes, in order.\<close>

definition write_read_cmds :: "(string \<times> bool) list \<Rightarrow> string list \<Rightarrow> string list" where
  "write_read_cmds sources incdirs =
     map (\<lambda>d. ''read_verilog -incdir '' @ d) incdirs @
     map (\<lambda>(path, is_sv). ''read_verilog'' @ (if is_sv then '' -sv'' else []) @ '' '' @ path)
       sources"

text \<open>\<^verbatim>\<open>for lib in liberty_files: fp.write(f"read_liberty -lib {lib}\n")\<close>\<close>

definition read_liberty_cmds :: "string list \<Rightarrow> string list" where
  "read_liberty_cmds liberty_files = map (\<lambda>lib. ''read_liberty -lib '' @ lib) liberty_files"

text \<open>The pieces a task appends to \<^verbatim>\<open>synth_cmd\<close>, one list element for each
  \<^verbatim>\<open>synth_cmd += ...\<close> that is executed: \<^verbatim>\<open>if flag: synth_cmd += s\<close> and
  \<^verbatim>\<open>if top: synth_cmd += f" -top {top}"\<close>.\<close>

definition flag_if :: "bool option \<Rightarrow> string \<Rightarrow> string list" where
  "flag_if b s = (if truthy b then [s] else [])"

definition top_flag :: "string option \<Rightarrow> string list" where
  "top_flag t = (case t of None \<Rightarrow> [] | Some v \<Rightarrow> if v = [] then [] else ['' -top '' @ v])"

text \<open>\<^verbatim>\<open>[f"top={top}"] if top else []\<close>\<close>

definition top_attr :: "string option \<Rightarrow> string list" where
  "top_attr t = (case t of None \<Rightarrow> [] | Some v \<Rightarrow> if v = [] then [] else [''top='' @ v])"

text \<open>The output list of the synthesis tasks and of the formal task:
  \<^verbatim>\<open>if status == 0 and os.path.isfile(out_path): output.append(FileSet(...))\<close>.\<close>

definition resolve ::
  "world \<Rightarrow> task_input \<Rightarrow> string \<Rightarrow> string \<Rightarrow> string list \<Rightarrow> FileSet list" where
  "resolve w i ftype out_file attrs =
     (if exec_status w = 0 \<and> isfile w (path_join (rundir i) out_file)
      then [\<lparr>src = name i, filetype = ftype, basedir = rundir i, files = [out_file],
             attributes = attrs\<rparr>]
      else [])"

subsection \<open>\<^verbatim>\<open>Synth\<close>: generic synthesis\<close>

definition Synth_flags :: "params \<Rightarrow> string list" where
  "Synth_flags p =
     top_flag (top_p p) @
     flag_if (flatten p) '' -flatten'' @
     flag_if (nofsm p) '' -nofsm'' @
     flag_if (noabc p) '' -noabc'' @
     flag_if (retime p) '' -retime''"

definition Synth_cmd :: "params \<Rightarrow> string" where
  "Synth_cmd p = ''synth'' @ concat (Synth_flags p)"

definition Synth_write :: "string \<Rightarrow> string \<Rightarrow> string list" where
  "Synth_write fmt out_path =
     (if fmt = ''json'' then [''write_json '' @ out_path]
      else if fmt = ''verilog'' then [''write_verilog '' @ out_path]
      else if fmt = ''blif'' then [''write_blif '' @ out_path]
      else if fmt = ''edif'' then [''write_edif '' @ out_path]
      else if fmt = ''rtlil'' then [''write_rtlil '' @ out_path]
      else [])"

definition Synth_writes :: "task_input \<Rightarrow> string list" where
  "Synth_writes i =
     (case collect_rtl (inputs i) of (sources, incdirs, liberty_files) \<Rightarrow>
        let fmt = str_or (output_format (params i)) ''json'';
            out_file = ''netlist.'' @ fmt;
            out_path = path_join (rundir i) out_file
        in write_read_cmds sources incdirs @
           read_liberty_cmds liberty_files @
           [Synth_cmd (params i)] @
           (case liberty_files of [] \<Rightarrow> []
            | lib0 # _ \<Rightarrow> [''dfflibmap -liberty '' @ lib0, ''abc -liberty '' @ lib0]) @
           [''opt_clean''] @
           (case liberty_files of [] \<Rightarrow> [''stat''] | lib0 # _ \<Rightarrow> [''stat -liberty '' @ lib0]) @
           Synth_write fmt out_path @
           list_or_empty (args (params i)))"

definition Synth :: "world \<Rightarrow> task_input \<Rightarrow> task_run" where
  "Synth w i =
     (let top = top_p (params i);
          fmt = str_or (output_format (params i)) ''json'';
          out_file = ''netlist.'' @ fmt;
          spath = path_join (rundir i) ''synth.ys''
      in \<lparr>script_path = spath,
          script_content = file_content (Synth_writes i),
          cmd = [''yosys'', ''-l'', ''synth.log'', spath],
          logfile = ''synth.log'',
          result = \<lparr>status = exec_status w,
                     outputs = resolve w i ''yosysNetlist'' out_file
                                 ([''format='' @ fmt] @ top_attr top)\<rparr>\<rparr>)"

subsection \<open>\<^verbatim>\<open>SynthIce40\<close>\<close>

definition SynthIce40_flags :: "params \<Rightarrow> string list" where
  "SynthIce40_flags p =
     top_flag (top_p p) @
     flag_if (dff p) '' -dff'' @
     flag_if (retime p) '' -retime'' @
     flag_if (nocarry p) '' -nocarry'' @
     flag_if (nobram p) '' -nobram'' @
     flag_if (dsp p) '' -dsp'' @
     flag_if (abc9 p) '' -abc9''"

definition SynthIce40_write :: "string \<Rightarrow> string \<Rightarrow> string list" where
  "SynthIce40_write fmt out_path =
     (if fmt = ''json'' then ['' -json '' @ out_path]
      else if fmt = ''blif'' then ['' -blif '' @ out_path]
      else if fmt = ''edif'' then ['' -edif '' @ out_path]
      else [])"

definition SynthIce40_cmd :: "task_input \<Rightarrow> string" where
  "SynthIce40_cmd i =
     (let fmt = str_or (output_format (params i)) ''json'';
          out_path = path_join (rundir i) (''netlist.'' @ fmt)
      in ''synth_ice40 -device '' @ str_or (device (params i)) ''hx'' @
         concat (SynthIce40_flags (params i) @ SynthIce40_write fmt out_path))"

definition SynthIce40_writes :: "task_input \<Rightarrow> string list" where
  "SynthIce40_writes i =
     (case collect_rtl (inputs i) of (sources, incdirs, _) \<Rightarrow>
        write_read_cmds sources incdirs @
        [SynthIce40_cmd i] @
        list_or_empty (args (params i)))"

definition SynthIce40 :: "world \<Rightarrow> task_input \<Rightarrow> task_run" where
  "SynthIce40 w i =
     (let top = top_p (params i);
          dev = str_or (device (params i)) ''hx'';
          fmt = str_or (output_format (params i)) ''json'';
          out_file = ''netlist.'' @ fmt;
          spath = path_join (rundir i) ''synth.ys''
      in \<lparr>script_path = spath,
          script_content = file_content (SynthIce40_writes i),
          cmd = [''yosys'', ''-l'', ''synth.log'', spath],
          logfile = ''synth.log'',
          result = \<lparr>status = exec_status w,
                     outputs = resolve w i ''yosysNetlist'' out_file
                                 ([''format='' @ fmt, ''target=ice40'', ''device='' @ dev]
                                  @ top_attr top)\<rparr>\<rparr>)"

subsection \<open>\<^verbatim>\<open>SynthXilinx\<close>\<close>

definition SynthXilinx_flags :: "params \<Rightarrow> string list" where
  "SynthXilinx_flags p =
     top_flag (top_p p) @
     flag_if (flatten p) '' -flatten'' @
     flag_if (dff p) '' -dff'' @
     flag_if (retime p) '' -retime'' @
     flag_if (nobram p) '' -nobram'' @
     flag_if (nodsp p) '' -nodsp'' @
     flag_if (noiopad p) '' -noiopad'' @
     flag_if (noclkbuf p) '' -noclkbuf'' @
     flag_if (abc9 p) '' -abc9''"

definition SynthXilinx_write :: "string \<Rightarrow> string \<Rightarrow> string list" where
  "SynthXilinx_write fmt out_path =
     (if fmt = ''json'' then ['' -json '' @ out_path]
      else if fmt = ''edif'' then ['' -edif '' @ out_path]
      else if fmt = ''blif'' then ['' -blif '' @ out_path]
      else [])"

definition SynthXilinx_cmd :: "task_input \<Rightarrow> string" where
  "SynthXilinx_cmd i =
     (let fmt = str_or (output_format (params i)) ''json'';
          out_path = path_join (rundir i) (''netlist.'' @ fmt)
      in ''synth_xilinx -family '' @ str_or (family (params i)) ''xc7'' @
         concat (SynthXilinx_flags (params i) @ SynthXilinx_write fmt out_path))"

definition SynthXilinx_writes :: "task_input \<Rightarrow> string list" where
  "SynthXilinx_writes i =
     (case collect_rtl (inputs i) of (sources, incdirs, _) \<Rightarrow>
        write_read_cmds sources incdirs @
        [SynthXilinx_cmd i] @
        list_or_empty (args (params i)))"

definition SynthXilinx :: "world \<Rightarrow> task_input \<Rightarrow> task_run" where
  "SynthXilinx w i =
     (let top = top_p (params i);
          fam = str_or (family (params i)) ''xc7'';
          fmt = str_or (output_format (params i)) ''json'';
          out_file = ''netlist.'' @ fmt;
          spath = path_join (rundir i) ''synth.ys''
      in \<lparr>script_path = spath,
          script_content = file_content (SynthXilinx_writes i),
          cmd = [''yosys'', ''-l'', ''synth.log'', spath],
          logfile = ''synth.log'',
          result = \<lparr>status = exec_status w,
                     outputs = resolve w i ''yosysNetlist'' out_file
                                 ([''format='' @ fmt, ''target=xilinx'', ''family='' @ fam]
                                  @ top_attr top)\<rparr>\<rparr>)"

subsection \<open>\<^verbatim>\<open>SynthLattice\<close>\<close>

definition SynthLattice_flags :: "params \<Rightarrow> string list" where
  "SynthLattice_flags p =
     top_flag (top_p p) @
     flag_if (dff p) '' -dff'' @
     flag_if (retime p) '' -retime''"

definition SynthLattice_write :: "string \<Rightarrow> string \<Rightarrow> string list" where
  "SynthLattice_write fmt out_path =
     (if fmt = ''json'' then ['' -json '' @ out_path]
      else if fmt = ''edif'' then ['' -edif '' @ out_path]
      else [])"

definition SynthLattice_cmd :: "task_input \<Rightarrow> string" where
  "SynthLattice_cmd i =
     (let fmt = str_or (output_format (params i)) ''json'';
          out_path = path_join (rundir i) (''netlist.'' @ fmt)
      in ''synth_lattice -family '' @ str_or (family (params i)) ''ecp5'' @
         concat (SynthLattice_flags (params i) @ SynthLattice_write fmt out_path))"

definition SynthLattice_writes :: "task_input \<Rightarrow> string list" where
  "SynthLattice_writes i =
     (case collect_rtl (inputs i) of (sources, incdirs, _) \<Rightarrow>
        write_read_cmds sources incdirs @
        [SynthLattice_cmd i] @
        list_or_empty (args (params i)))"

definition SynthLattice :: "world \<Rightarrow> task_input \<Rightarrow> task_run" where
  "SynthLattice w i =
     (let top = top_p (params i);
          fam = str_or (family (params i)) ''ecp5'';
          fmt = str_or (output_format (params i)) ''json'';
          out_file = ''netlist.'' @ fmt;
          spath = path_join (rundir i) ''synth.ys''
      in \<lparr>script_path = spath,
          script_content = file_content (SynthLattice_writes i),
          cmd = [''yosys'', ''-l'', ''synth.log'', spath],
          logfile = ''synth.log'',
          result = \<lparr>status = exec_status w,
                     outputs = resolve w i ''yosysNetlist'' out_file
                                 ([''format='' @ fmt, ''target=lattice'', ''family='' @ fam]
                                  @ top_attr top)\<rparr>\<rparr>)"

subsection \<open>\<^verbatim>\<open>SynthGowin\<close>\<close>

definition SynthGowin_flags :: "params \<Rightarrow> string list" where
  "SynthGowin_flags p = top_flag (top_p p)"

definition SynthGowin_write :: "string \<Rightarrow> string \<Rightarrow> string list" where
  "SynthGowin_write fmt out_path =
     (if fmt = ''json'' then ['' -json '' @ out_path]
      else if fmt = ''verilog'' then ['' -vout '' @ out_path]
      else [])"

definition SynthGowin_cmd :: "task_input \<Rightarrow> string" where
  "SynthGowin_cmd i =
     (let fmt = str_or (output_format (params i)) ''json'';
          out_path = path_join (rundir i) (''netlist.'' @ fmt)
      in ''synth_gowin'' @
         concat (SynthGowin_flags (params i) @ SynthGowin_write fmt out_path))"

definition SynthGowin_writes :: "task_input \<Rightarrow> string list" where
  "SynthGowin_writes i =
     (case collect_rtl (inputs i) of (sources, incdirs, _) \<Rightarrow>
        write_read_cmds sources incdirs @
        [SynthGowin_cmd i] @
        list_or_empty (args (params i)))"

definition SynthGowin :: "world \<Rightarrow> task_input \<Rightarrow> task_run" where
  "SynthGowin w i =
     (let top = top_p (params i);
          fmt = str_or (output_format (params i)) ''json'';
          out_file = ''netlist.'' @ fmt;
          spath = path_join (rundir i) ''synth.ys''
      in \<lparr>script_path = spath,
          script_content = file_content (SynthGowin_writes i),
          cmd = [''yosys'', ''-l'', ''synth.log'', spath],
          logfile = ''synth.log'',
          result = \<lparr>status = exec_status w,
                     outputs = resolve w i ''yosysNetlist'' out_file
                                 ([''format='' @ fmt, ''target=gowin''] @ top_attr top)\<rparr>\<rparr>)"

subsection \<open>\<^verbatim>\<open>FormalPrepare\<close>\<close>

text \<open>The two read loops of \<^verbatim>\<open>FormalPrepare\<close>, which the task writes out itself.\<close>

definition formal_read_cmds :: "(string \<times> bool) list \<Rightarrow> string list \<Rightarrow> string list" where
  "formal_read_cmds sources incdirs =
     map (\<lambda>d. ''read_verilog -incdir '' @ d) incdirs @
     map (\<lambda>(path, is_sv).
            ''read_verilog -formal'' @ (if is_sv then '' -sv'' else []) @ '' '' @ path)
       sources"

definition hierarchy_cmd :: "string option \<Rightarrow> string" where
  "hierarchy_cmd t =
     (case t of None \<Rightarrow> ''hierarchy -auto-top''
      | Some v \<Rightarrow> if v = [] then ''hierarchy -auto-top'' else ''hierarchy -top '' @ v)"

definition smt2_flags :: "params \<Rightarrow> string list" where
  "smt2_flags p =
     flag_if (bv p) '' -bv'' @
     flag_if (mem p) '' -mem'' @
     flag_if (wires p) '' -wires''"

definition smt2_cmd :: "params \<Rightarrow> string" where
  "smt2_cmd p = ''write_smt2'' @ concat (smt2_flags p)"

definition FormalPrepare_writes :: "task_input \<Rightarrow> string list" where
  "FormalPrepare_writes i =
     (case collect_rtl (inputs i) of (sources, incdirs, _) \<Rightarrow>
        formal_read_cmds sources incdirs @
        [hierarchy_cmd (top_p (params i))] @
        [''proc'', ''opt'', ''memory -nordff -nomap'', ''opt -fast''] @
        [smt2_cmd (params i) @ '' '' @ path_join (rundir i) ''model.smt2''] @
        list_or_empty (args (params i)))"

definition FormalPrepare :: "world \<Rightarrow> task_input \<Rightarrow> task_run" where
  "FormalPrepare w i =
     (let top = top_p (params i);
          out_file = ''model.smt2'';
          spath = path_join (rundir i) ''formal.ys''
      in \<lparr>script_path = spath,
          script_content = file_content (FormalPrepare_writes i),
          cmd = [''yosys'', ''-l'', ''formal.log'', spath],
          logfile = ''formal.log'',
          result = \<lparr>status = exec_status w,
                     outputs = resolve w i ''yosysSMT2'' out_file (top_attr top)\<rparr>\<rparr>)"

subsection \<open>\<^verbatim>\<open>Script\<close>: a caller-supplied script\<close>

definition Script_writes :: "task_input \<Rightarrow> string list" where
  "Script_writes i =
     (case collect_rtl (inputs i) of (sources, incdirs, liberty_files) \<Rightarrow>
        (if truthy (read_rtl (params i))
         then write_read_cmds sources incdirs @ read_liberty_cmds liberty_files
         else []) @
        [script (params i)])"

definition Script :: "world \<Rightarrow> task_input \<Rightarrow> task_run" where
  "Script w i =
     (let top = top_p (params i);
          fmt = str_or (output_format (params i)) [];
          spath = path_join (rundir i) ''user.ys''
      in \<lparr>script_path = spath,
          script_content = file_content (Script_writes i),
          cmd = [''yosys'', ''-l'', ''script.log'', spath],
          logfile = ''script.log'',
          result = \<lparr>status = exec_status w,
                     outputs =
                       (if exec_status w = 0 \<and> fmt \<noteq> []
                        then (let out_file = ''netlist.'' @ fmt
                              in if isfile w (path_join (rundir i) out_file)
                                 then [\<lparr>src = name i, filetype = ''yosysNetlist'',
                                        basedir = rundir i, files = [out_file],
                                        attributes = [''format='' @ fmt] @ top_attr top\<rparr>]
                                 else [])
                        else [])\<rparr>\<rparr>)"

section \<open>Notions used in the statements\<close>

text \<open>What one file set adds to the three lists: the loop body run on empty lists.\<close>

definition contribution :: "fileset \<Rightarrow> rtl" where
  "contribution fs = collect_fs fs ([], [], [])"

definition rtl_append :: "rtl \<Rightarrow> rtl \<Rightarrow> rtl" where
  "rtl_append a b =
     (case a of (s1, d1, l1) \<Rightarrow> case b of (s2, d2, l2) \<Rightarrow> (s1 @ s2, d1 @ d2, l1 @ l2))"

text \<open>A parameter object with every parameter absent and an empty script body.\<close>

definition no_params :: params where
  "no_params = \<lparr>top_p = None, output_format = None, args = None, device = None, family = None,
     flatten = None, nofsm = None, noabc = None, retime = None, dff = None, nocarry = None,
     nobram = None, dsp = None, abc9 = None, nodsp = None, noiopad = None, noclkbuf = None,
     bv = None, mem = None, wires = None, script = [], read_rtl = None\<rparr>"

text \<open>A piece of a directive that is emitted exactly when a condition holds.\<close>

definition emitted :: "bool \<Rightarrow> string \<Rightarrow> string" where
  "emitted b s = (if b then s else [])"

text \<open>\<^verbatim>\<open>s.startswith(pre)\<close>\<close>

definition startswith :: "string \<Rightarrow> string \<Rightarrow> bool" where
  "startswith s pre = (take (length pre) s = pre)"

section \<open>Classification preserves discovery order\<close>

lemma append_each_eq: "append_each g xs acc = acc @ map g xs"
  by (induction xs arbitrary: acc) simp_all

text \<open>Whitespace beyond ASCII is whitespace: a base directory that consists of a no-break
  space is blank.\<close>

lemma strip_no_break_space: "strip [CHR 0xC2, CHR 0xA0] = [] \<and> strip ''/inc'' = ''/inc''"
  by (simp add: strip_def is_space_def is_continuation_def)

lemma collect_fs_acc: "collect_fs fs acc = rtl_append acc (contribution fs)"
  by (cases acc) (simp add: collect_fs_def contribution_def rtl_append_def append_each_eq Let_def)

lemma collect_loop_acc:
  "collect_loop ins acc =
     (case acc of (s, d, l) \<Rightarrow>
        (s @ concat (map (\<lambda>fs. fst (contribution fs)) ins),
         d @ concat (map (\<lambda>fs. fst (snd (contribution fs))) ins),
         l @ concat (map (\<lambda>fs. snd (snd (contribution fs))) ins)))"
proof (induction ins arbitrary: acc)
  case Nil
  show ?case by (cases acc) simp
next
  case (Cons fs rest)
  show ?case
    by (cases acc; cases "contribution fs") (simp add: Cons.IH collect_fs_acc rtl_append_def)
qed

lemma contribution_source:
  assumes "fs_type fs = ''std.FileSet''"
    and "fs_filetype fs = ''verilogSource'' \<or> fs_filetype fs = ''systemVerilogSource''"
  shows "contribution fs =
           (map (\<lambda>f. (path_join (fs_basedir fs) f, fs_filetype fs = ''systemVerilogSource''))
              (fs_files fs),
            map (path_join (fs_basedir fs)) (fs_incdirs fs), [])"
  using assms by (simp add: contribution_def collect_fs_def append_each_eq)

lemma contribution_incdir:
  assumes "fs_type fs = ''std.FileSet''" and "fs_filetype fs = ''verilogIncDir''"
  shows "contribution fs =
           ([], if strip (fs_basedir fs) \<noteq> [] then [fs_basedir fs] else [], [])"
  using assms by (simp add: contribution_def collect_fs_def)

lemma contribution_include:
  assumes "fs_type fs = ''std.FileSet''"
    and "fs_filetype fs = ''verilogInclude'' \<or> fs_filetype fs = ''systemVerilogInclude''"
  shows "contribution fs = ([], map (path_join (fs_basedir fs)) (fs_incdirs fs), [])"
  using assms by (auto simp add: contribution_def collect_fs_def append_each_eq)

lemma contribution_liberty:
  assumes "fs_type fs = ''std.FileSet''" and "fs_filetype fs = ''libertyLib''"
  shows "contribution fs =
           ([], [],
            map (path_join (fs_basedir fs)) (fs_files fs) @
            (if fs_files fs = [] \<and> strip (fs_basedir fs) \<noteq> [] then [fs_basedir fs] else []))"
  using assms by (simp add: contribution_def collect_fs_def append_each_eq Let_def)

lemma contribution_other:
  assumes "fs_type fs \<noteq> ''std.FileSet'' \<or>
           fs_filetype fs \<notin> {''verilogSource'', ''systemVerilogSource'', ''verilogIncDir'',
             ''verilogInclude'', ''systemVerilogInclude'', ''libertyLib''}"
  shows "contribution fs = ([], [], [])"
  using assms by (auto simp add: contribution_def collect_fs_def)

text \<open>
  Claim C8. For every ordered list of input collections, each of the three lists that
  classification returns (sources, include directories, library files) is the concatenation,
  in input order, of what each collection contributes, and a collection contributes its
  entries in their stored order: nothing is reordered, sorted or dropped as a duplicate.
  A collection of an unrecognised kind contributes nothing.
\<close>

theorem collect_rtl_discovery_order:
  "collect_rtl ins =
     (concat (map (\<lambda>fs. fst (contribution fs)) ins),
      concat (map (\<lambda>fs. fst (snd (contribution fs))) ins),
      concat (map (\<lambda>fs. snd (snd (contribution fs))) ins))
   \<and> (fs_type fs = ''std.FileSet'' \<and>
        (fs_filetype fs = ''verilogSource'' \<or> fs_filetype fs = ''systemVerilogSource'') \<longrightarrow>
      contribution fs =
        (map (\<lambda>f. (path_join (fs_basedir fs) f, fs_filetype fs = ''systemVerilogSource''))
           (fs_files fs),
         map (path_join (fs_basedir fs)) (fs_incdirs fs), []))
   \<and> (fs_type fs = ''std.FileSet'' \<and> fs_filetype fs = ''verilogIncDir'' \<longrightarrow>
      contribution fs = ([], if strip (fs_basedir fs) \<noteq> [] then [fs_basedir fs] else [], []))
   \<and> (fs_type fs = ''std.FileSet'' \<and>
        (fs_filetype fs = ''verilogInclude'' \<or> fs_filetype fs = ''systemVerilogInclude'') \<longrightarrow>
      contribution fs = ([], map (path_join (fs_basedir fs)) (fs_incdirs fs), []))
   \<and> (fs_type fs = ''std.FileSet'' \<and> fs_filetype fs = ''libertyLib'' \<longrightarrow>
      contribution fs =
        ([], [],
         map (path_join (fs_basedir fs)) (fs_files fs) @
         (if fs_files fs = [] \<and> strip (fs_basedir fs) \<noteq> [] then [fs_basedir fs] else [])))
   \<and> (fs_type fs \<noteq> ''std.FileSet'' \<or>
        fs_filetype fs \<notin> {''verilogSource'', ''systemVerilogSource'', ''verilogIncDir'',
          ''verilogInclude'', ''systemVerilogInclude'', ''libertyLib''} \<longrightarrow>
      contribution fs = ([], [], []))"
proof (intro conjI impI)
  show "collect_rtl ins =
     (concat (map (\<lambda>fs. fst (contribution fs)) ins),
      concat (map (\<lambda>fs. fst (snd (contribution fs))) ins),
      concat (map (\<lambda>fs. snd (snd (contribution fs))) ins))"
    by (simp add: collect_rtl_def collect_loop_acc)
qed (simp_all add: contribution_source contribution_incdir contribution_include
      contribution_liberty contribution_other)


theorem collect_rtl_discovery_order_witness:
  "collect_rtl
     [\<lparr>fs_type = ''std.FileSet'', fs_filetype = ''verilogSource'', fs_basedir = ''/d'',
        fs_files = [''b.v'', ''a.v''], fs_incdirs = [''inc'']\<rparr>,
      \<lparr>fs_type = ''std.FileSet'', fs_filetype = ''vhdlSource'', fs_basedir = ''/d'',
        fs_files = [''x.vhd''], fs_incdirs = [''inc'']\<rparr>,
      \<lparr>fs_type = ''std.FileSet'', fs_filetype = ''verilogIncDir'', fs_basedir = ''/inc'',
        fs_files = [], fs_incdirs = []\<rparr>,
      \<lparr>fs_type = ''std.FileSet'', fs_filetype = ''systemVerilogInclude'', fs_basedir = ''/h'',
        fs_files = [], fs_incdirs = [''sv'']\<rparr>,
      \<lparr>fs_type = ''std.FileSet'', fs_filetype = ''libertyLib'', fs_basedir = ''/lib'',
        fs_files = [''c.lib''], fs_incdirs = []\<rparr>,
      \<lparr>fs_type = ''std.FileSet'', fs_filetype = ''verilogSource'', fs_basedir = ''/d'',
        fs_files = [''b.v'', ''a.v''], fs_incdirs = [''inc'']\<rparr>]
   = ([(''/d/b.v'', False), (''/d/a.v'', False), (''/d/b.v'', False), (''/d/a.v'', False)],
      [''/d/inc'', ''/inc'', ''/h/sv'', ''/d/inc''],
      [''/lib/c.lib''])
   \<and> contribution \<lparr>fs_type = ''std.FileSet'', fs_filetype = ''vhdlSource'', fs_basedir = ''/d'',
        fs_files = [''x.vhd''], fs_incdirs = [''inc'']\<rparr> = ([], [], [])"
  using
    collect_rtl_discovery_order [of
     "[\<lparr>fs_type = ''std.FileSet'', fs_filetype = ''verilogSource'', fs_basedir = ''/d'',
        fs_files = [''b.v'', ''a.v''], fs_incdirs = [''inc'']\<rparr>,
      \<lparr>fs_type = ''std.FileSet'', fs_filetype = ''vhdlSource'', fs_basedir = ''/d'',
        fs_files = [''x.vhd''], fs_incdirs = [''inc'']\<rparr>,
      \<lparr>fs_type = ''std.FileSet'', fs_filetype = ''verilogIncDir'', fs_basedir = ''/inc'',
        fs_files = [], fs_incdirs = []\<rparr>,
      \<lparr>fs_type = ''std.FileSet'', fs_filetype = ''systemVerilogInclude'', fs_basedir = ''/h'',
        fs_files = [], fs_incdirs = [''sv'']\<rparr>,
      \<lparr>fs_type = ''std.FileSet'', fs_filetype = ''libertyLib'', fs_basedir = ''/lib'',
        fs_files = [''c.lib''], fs_incdirs = []\<rparr>,
      \<lparr>fs_type = ''std.FileSet'', fs_filetype = ''verilogSource'', fs_basedir = ''/d'',
        fs_files = [''b.v'', ''a.v''], fs_incdirs = [''inc'']\<rparr>]"
     "\<lparr>fs_type = ''std.FileSet'', fs_filetype = ''vhdlSource'', fs_basedir = ''/d'',
        fs_files = [''x.vhd''], fs_incdirs = [''inc'']\<rparr>"]
    collect_rtl_discovery_order [of "[]"
     "\<lparr>fs_type = ''std.FileSet'', fs_filetype = ''verilogSource'', fs_basedir = ''/d'',
        fs_files = [''b.v'', ''a.v''], fs_incdirs = [''inc'']\<rparr>"]
    collect_rtl_discovery_order [of "[]"
     "\<lparr>fs_type = ''std.FileSet'', fs_filetype = ''verilogIncDir'', fs_basedir = ''/inc'',
        fs_files = [], fs_incdirs = []\<rparr>"]
    collect_rtl_discovery_order [of "[]"
     "\<lparr>fs_type = ''std.FileSet'', fs_filetype = ''systemVerilogInclude'', fs_basedir = ''/h'',
        fs_files = [], fs_incdirs = [''sv'']\<rparr>"]
    collect_rtl_discovery_order [of "[]"
     "\<lparr>fs_type = ''std.FileSet'', fs_filetype = ''libertyLib'', fs_basedir = ''/lib'',
        fs_files = [''c.lib''], fs_incdirs = []\<rparr>"]
  by (simp add: path_join_def endswith_sep_def strip_def is_space_def)

section \<open>Scenarios of the generic and the iCE40 task\<close>

text \<open>
  Claim C1. In the generic task with the single SystemVerilog source \<open>top.sv\<close> of base
  directory \<open>/d\<close> (no include directories, no libraries), format \<open>json\<close>, top module
  \<open>top\<close> and no other synthesis flag set, the script is the lines
  \<open>read_verilog -sv /d/top.sv\<close>, \<open>synth -top top\<close>, \<open>opt_clean\<close>, \<open>stat\<close>,
  \<open>write_json <rundir>/netlist.json\<close> in that order, followed by the caller's trailing
  directives; when the status is 0 and the predicted file exists, the attribute list of the
  artifact produced is exactly \<open>["format=json", "top=top"]\<close>.
\<close>

theorem Synth_scenario:
  assumes "inputs i = [\<lparr>fs_type = ''std.FileSet'', fs_filetype = ''systemVerilogSource'',
                        fs_basedir = ''/d'', fs_files = [''top.sv''], fs_incdirs = []\<rparr>]"
    and "top_p (params i) = Some ''top''"
    and "output_format (params i) = Some ''json''"
    and "\<not> truthy (flatten (params i))" and "\<not> truthy (nofsm (params i))"
    and "\<not> truthy (noabc (params i))" and "\<not> truthy (retime (params i))"
  shows "script_content (Synth w i) =
           file_content ([''read_verilog -sv /d/top.sv'', ''synth -top top'', ''opt_clean'',
                          ''stat'', ''write_json '' @ path_join (rundir i) ''netlist.json'']
                         @ list_or_empty (args (params i)))
       \<and> (exec_status w = 0 \<and> isfile w (path_join (rundir i) ''netlist.json'') \<longrightarrow>
            map attributes (outputs (result (Synth w i))) = [[''format=json'', ''top=top'']])"
  using assms
  by (simp add: Synth_def Synth_writes_def Synth_cmd_def Synth_flags_def Synth_write_def
      collect_rtl_def collect_fs_def path_join_def endswith_sep_def write_read_cmds_def
      read_liberty_cmds_def resolve_def top_attr_def
      Let_def str_or_def top_flag_def flag_if_def truthy_def)

theorem Synth_scenario_witness:
  "script_content
     (Synth \<lparr>exec_status = 0, isfile = (\<lambda>f. f = ''/run/netlist.json'')\<rparr>
        \<lparr>name = ''synth'', rundir = ''/run'',
         inputs = [\<lparr>fs_type = ''std.FileSet'', fs_filetype = ''systemVerilogSource'',
                    fs_basedir = ''/d'', fs_files = [''top.sv''], fs_incdirs = []\<rparr>],
         params = no_params\<lparr>top_p := Some ''top'', output_format := Some ''json''\<rparr>\<rparr>)
   = file_content [''read_verilog -sv /d/top.sv'', ''synth -top top'', ''opt_clean'', ''stat'',
       ''write_json /run/netlist.json'']
   \<and> map attributes (outputs (result
     (Synth \<lparr>exec_status = 0, isfile = (\<lambda>f. f = ''/run/netlist.json'')\<rparr>
        \<lparr>name = ''synth'', rundir = ''/run'',
         inputs = [\<lparr>fs_type = ''std.FileSet'', fs_filetype = ''systemVerilogSource'',
                    fs_basedir = ''/d'', fs_files = [''top.sv''], fs_incdirs = []\<rparr>],
         params = no_params\<lparr>top_p := Some ''top'', output_format := Some ''json''\<rparr>\<rparr>)))
   = [[''format=json'', ''top=top'']]"
  using Synth_scenario [of
        "\<lparr>name = ''synth'', rundir = ''/run'',
         inputs = [\<lparr>fs_type = ''std.FileSet'', fs_filetype = ''systemVerilogSource'',
                    fs_basedir = ''/d'', fs_files = [''top.sv''], fs_incdirs = []\<rparr>],
         params = no_params\<lparr>top_p := Some ''top'', output_format := Some ''json''\<rparr>\<rparr>"
        "\<lparr>exec_status = 0, isfile = (\<lambda>f. f = ''/run/netlist.json'')\<rparr>"]
  by (simp add: no_params_def truthy_def list_or_empty_def path_join_def endswith_sep_def)

lemma SynthIce40_cmd_in_writes: "SynthIce40_cmd i \<in> set (SynthIce40_writes i)"
  by (cases "collect_rtl (inputs i)" rule: prod_cases3) (simp add: SynthIce40_writes_def)

text \<open>
  Claim C6. In the iCE40 task with the device unset, top module \<open>cpu\<close>, \<open>dff\<close> true, no
  other optional flag set and format \<open>blif\<close>, the synthesis directive written to the script
  is exactly \<open>synth_ice40 -device hx -top cpu -dff -blif <rundir>/netlist.blif\<close>.
\<close>

theorem SynthIce40_scenario:
  assumes "device (params i) = None"
    and "top_p (params i) = Some ''cpu''"
    and "dff (params i) = Some True"
    and "\<not> truthy (retime (params i))" and "\<not> truthy (nocarry (params i))"
    and "\<not> truthy (nobram (params i))" and "\<not> truthy (dsp (params i))"
    and "\<not> truthy (abc9 (params i))"
    and "output_format (params i) = Some ''blif''"
  shows "SynthIce40_cmd i =
           ''synth_ice40 -device hx -top cpu -dff -blif '' @ path_join (rundir i) ''netlist.blif''
       \<and> SynthIce40_cmd i \<in> set (SynthIce40_writes i)"
proof
  show "SynthIce40_cmd i =
          ''synth_ice40 -device hx -top cpu -dff -blif '' @ path_join (rundir i) ''netlist.blif''"
    using assms
    by (simp add: SynthIce40_cmd_def SynthIce40_flags_def SynthIce40_write_def Let_def
        str_or_def top_flag_def flag_if_def truthy_def)
  show "SynthIce40_cmd i \<in> set (SynthIce40_writes i)"
    by (rule SynthIce40_cmd_in_writes)
qed

theorem SynthIce40_scenario_witness:
  "SynthIce40_cmd \<lparr>name = ''synth'', rundir = ''/run'', inputs = [],
      params = no_params\<lparr>top_p := Some ''cpu'', dff := Some True,
                          output_format := Some ''blif''\<rparr>\<rparr>
   = ''synth_ice40 -device hx -top cpu -dff -blif /run/netlist.blif''"
  using SynthIce40_scenario [of "\<lparr>name = ''synth'', rundir = ''/run'', inputs = [],
      params = no_params\<lparr>top_p := Some ''cpu'', dff := Some True,
                          output_format := Some ''blif''\<rparr>\<rparr>"]
  by (simp add: no_params_def truthy_def path_join_def endswith_sep_def)

section \<open>Output resolution\<close>

lemma resolve_nonzero: "exec_status w \<noteq> 0 \<Longrightarrow> resolve w i ft f a = []"
  by (simp add: resolve_def)

text \<open>
  Claim C2. In every task, when the exit status of the tool is not 0, the result returned
  carries exactly that status and an empty output list, whatever files exist.
\<close>

theorem nonzero_status_empty_output:
  assumes "exec_status w \<noteq> 0"
  shows "result (Synth w i) = \<lparr>status = exec_status w, outputs = []\<rparr>
       \<and> result (SynthIce40 w i) = \<lparr>status = exec_status w, outputs = []\<rparr>
       \<and> result (SynthXilinx w i) = \<lparr>status = exec_status w, outputs = []\<rparr>
       \<and> result (SynthLattice w i) = \<lparr>status = exec_status w, outputs = []\<rparr>
       \<and> result (SynthGowin w i) = \<lparr>status = exec_status w, outputs = []\<rparr>
       \<and> result (FormalPrepare w i) = \<lparr>status = exec_status w, outputs = []\<rparr>
       \<and> result (Script w i) = \<lparr>status = exec_status w, outputs = []\<rparr>"
  using assms
  by (simp add: Synth_def SynthIce40_def SynthXilinx_def SynthLattice_def SynthGowin_def
      FormalPrepare_def Script_def Let_def resolve_nonzero)

theorem nonzero_status_empty_output_witness:
  "result (Synth \<lparr>exec_status = 1, isfile = (\<lambda>f. True)\<rparr>
      \<lparr>name = ''synth'', rundir = ''/run'', inputs = [], params = no_params\<rparr>)
   = \<lparr>status = 1, outputs = []\<rparr>
   \<and> result (Script \<lparr>exec_status = 1, isfile = (\<lambda>f. True)\<rparr>
      \<lparr>name = ''synth'', rundir = ''/run'', inputs = [], params = no_params\<rparr>)
   = \<lparr>status = 1, outputs = []\<rparr>"
  using nonzero_status_empty_output
    [of "\<lparr>exec_status = 1, isfile = (\<lambda>f. True)\<rparr>"
        "\<lparr>name = ''synth'', rundir = ''/run'', inputs = [], params = no_params\<rparr>"]
  by simp

text \<open>
  Claim C10. In the raw-script task, when the output format is unset or empty the output
  list is empty, also at status 0 and whatever files exist in the run directory; an
  artifact is produced only when a non-empty format is given, the status is 0 and
  \<open>netlist.<format>\<close> exists in the run directory (and then it is).
\<close>

theorem Script_artifact_iff:
  "(\<not> str_truthy (output_format (params i)) \<longrightarrow> outputs (result (Script w i)) = [])
   \<and> (outputs (result (Script w i)) \<noteq> [] \<longleftrightarrow>
        (\<exists>fmt. output_format (params i) = Some fmt \<and> fmt \<noteq> [] \<and> exec_status w = 0
           \<and> isfile w (path_join (rundir i) (''netlist.'' @ fmt))))"
  by (auto simp add: Script_def Let_def str_or_def str_truthy_def split: option.splits)

theorem Script_artifact_iff_witness:
  "\<not> str_truthy (output_format no_params)
   \<and> outputs (result (Script \<lparr>exec_status = 0, isfile = (\<lambda>f. True)\<rparr>
        \<lparr>name = ''script'', rundir = ''/run'', inputs = [], params = no_params\<rparr>)) = []
   \<and> outputs (result (Script \<lparr>exec_status = 0, isfile = (\<lambda>f. True)\<rparr>
        \<lparr>name = ''script'', rundir = ''/run'', inputs = [],
         params = no_params\<lparr>output_format := Some ''json''\<rparr>\<rparr>)) \<noteq> []"
  using Script_artifact_iff
    [of "\<lparr>name = ''script'', rundir = ''/run'', inputs = [], params = no_params\<rparr>"
        "\<lparr>exec_status = 0, isfile = (\<lambda>f. True)\<rparr>"]
    Script_artifact_iff
    [of "\<lparr>name = ''script'', rundir = ''/run'', inputs = [],
         params = no_params\<lparr>output_format := Some ''json''\<rparr>\<rparr>"
        "\<lparr>exec_status = 0, isfile = (\<lambda>f. True)\<rparr>"]
  by (simp add: no_params_def str_truthy_def)

section \<open>Scripts depend on the classified inputs, the parameters and the run directory only\<close>

text \<open>
  Claim C9. Script composition is deterministic: in every task, two invocations with the
  same classified inputs, the same parameter values and the same run directory write
  byte-identical script content, whatever the task name, the exit status of the tool and
  the files found afterwards.
\<close>

theorem script_deterministic:
  assumes "collect_rtl (inputs i) = collect_rtl (inputs j)"
    and "params i = params j"
    and "rundir i = rundir j"
  shows "script_content (Synth w i) = script_content (Synth v j)
       \<and> script_content (SynthIce40 w i) = script_content (SynthIce40 v j)
       \<and> script_content (SynthXilinx w i) = script_content (SynthXilinx v j)
       \<and> script_content (SynthLattice w i) = script_content (SynthLattice v j)
       \<and> script_content (SynthGowin w i) = script_content (SynthGowin v j)
       \<and> script_content (FormalPrepare w i) = script_content (FormalPrepare v j)
       \<and> script_content (Script w i) = script_content (Script v j)"
proof -
  have "Synth_writes i = Synth_writes j"
    using assms by (simp add: Synth_writes_def)
  moreover have "SynthIce40_writes i = SynthIce40_writes j"
    using assms by (simp add: SynthIce40_writes_def SynthIce40_cmd_def)
  moreover have "SynthXilinx_writes i = SynthXilinx_writes j"
    using assms by (simp add: SynthXilinx_writes_def SynthXilinx_cmd_def)
  moreover have "SynthLattice_writes i = SynthLattice_writes j"
    using assms by (simp add: SynthLattice_writes_def SynthLattice_cmd_def)
  moreover have "SynthGowin_writes i = SynthGowin_writes j"
    using assms by (simp add: SynthGowin_writes_def SynthGowin_cmd_def)
  moreover have "FormalPrepare_writes i = FormalPrepare_writes j"
    using assms by (simp add: FormalPrepare_writes_def)
  moreover have "Script_writes i = Script_writes j"
    using assms by (simp add: Script_writes_def)
  ultimately show ?thesis
    by (simp add: Synth_def SynthIce40_def SynthXilinx_def SynthLattice_def SynthGowin_def
        FormalPrepare_def Script_def Let_def)
qed

theorem script_deterministic_witness:
  "script_content
     (Synth \<lparr>exec_status = 0, isfile = (\<lambda>f. True)\<rparr>
        \<lparr>name = ''first'', rundir = ''/run'',
         inputs = [\<lparr>fs_type = ''std.FileSet'', fs_filetype = ''verilogSource'',
                    fs_basedir = ''/d'', fs_files = [''a.v''], fs_incdirs = []\<rparr>],
         params = no_params\<rparr>)
   = script_content
     (Synth \<lparr>exec_status = 1, isfile = (\<lambda>f. False)\<rparr>
        \<lparr>name = ''second'', rundir = ''/run'',
         inputs = [\<lparr>fs_type = ''std.Other'', fs_filetype = ''verilogSource'',
                    fs_basedir = ''/e'', fs_files = [''b.v''], fs_incdirs = []\<rparr>,
                   \<lparr>fs_type = ''std.FileSet'', fs_filetype = ''verilogSource'',
                    fs_basedir = ''/d'', fs_files = [''a.v''], fs_incdirs = []\<rparr>],
         params = no_params\<rparr>)"
  using script_deterministic [of
        "\<lparr>name = ''first'', rundir = ''/run'',
         inputs = [\<lparr>fs_type = ''std.FileSet'', fs_filetype = ''verilogSource'',
                    fs_basedir = ''/d'', fs_files = [''a.v''], fs_incdirs = []\<rparr>],
         params = no_params\<rparr>"
        "\<lparr>name = ''second'', rundir = ''/run'',
         inputs = [\<lparr>fs_type = ''std.Other'', fs_filetype = ''verilogSource'',
                    fs_basedir = ''/e'', fs_files = [''b.v''], fs_incdirs = []\<rparr>,
                   \<lparr>fs_type = ''std.FileSet'', fs_filetype = ''verilogSource'',
                    fs_basedir = ''/d'', fs_files = [''a.v''], fs_incdirs = []\<rparr>],
         params = no_params\<rparr>"
        "\<lparr>exec_status = 0, isfile = (\<lambda>f. True)\<rparr>"
        "\<lparr>exec_status = 1, isfile = (\<lambda>f. False)\<rparr>"]
  by (simp add: collect_rtl_def collect_fs_def)

section \<open>Optional flags\<close>

text \<open>Each directive in terms of \<open>emitted\<close>: the head, then every flag under its own
  condition, in the order of the code.\<close>

lemma concat_flag_if: "concat (flag_if b s) = emitted (truthy b) s"
  by (simp add: flag_if_def emitted_def)

lemma concat_top_flag:
  "concat (top_flag t) = emitted (str_truthy t) ('' -top '' @ str_or t [])"
  by (cases t) (simp_all add: top_flag_def emitted_def str_truthy_def str_or_def)

lemma Synth_cmd_emitted:
  "Synth_cmd p =
     ''synth'' @
     emitted (str_truthy (top_p p)) ('' -top '' @ str_or (top_p p) []) @
     emitted (truthy (flatten p)) '' -flatten'' @
     emitted (truthy (nofsm p)) '' -nofsm'' @
     emitted (truthy (noabc p)) '' -noabc'' @
     emitted (truthy (retime p)) '' -retime''"
  by (simp only: Synth_cmd_def Synth_flags_def concat_append concat_flag_if concat_top_flag)

lemma concat_SynthIce40_write:
  "concat (SynthIce40_write fmt out) =
     emitted (fmt \<in> set [''json'', ''blif'', ''edif'']) ('' -'' @ fmt @ '' '' @ out)"
  by (simp add: SynthIce40_write_def emitted_def)

lemma concat_SynthXilinx_write:
  "concat (SynthXilinx_write fmt out) =
     emitted (fmt \<in> set [''json'', ''edif'', ''blif'']) ('' -'' @ fmt @ '' '' @ out)"
  by (simp add: SynthXilinx_write_def emitted_def)

lemma concat_SynthLattice_write:
  "concat (SynthLattice_write fmt out) =
     emitted (fmt \<in> set [''json'', ''edif'']) ('' -'' @ fmt @ '' '' @ out)"
  by (simp add: SynthLattice_write_def emitted_def)

lemma concat_SynthGowin_write:
  "concat (SynthGowin_write fmt out) =
     emitted (fmt = ''json'') ('' -json '' @ out) @
     emitted (fmt = ''verilog'') ('' -vout '' @ out)"
  by (simp add: SynthGowin_write_def emitted_def)

lemma SynthIce40_cmd_emitted:
  "SynthIce40_cmd i =
     ''synth_ice40 -device '' @ str_or (device (params i)) ''hx'' @
     emitted (str_truthy (top_p (params i))) ('' -top '' @ str_or (top_p (params i)) []) @
     emitted (truthy (dff (params i))) '' -dff'' @
     emitted (truthy (retime (params i))) '' -retime'' @
     emitted (truthy (nocarry (params i))) '' -nocarry'' @
     emitted (truthy (nobram (params i))) '' -nobram'' @
     emitted (truthy (dsp (params i))) '' -dsp'' @
     emitted (truthy (abc9 (params i))) '' -abc9'' @
     emitted (str_or (output_format (params i)) ''json'' \<in> set [''json'', ''blif'', ''edif''])
       ('' -'' @ str_or (output_format (params i)) ''json'' @ '' '' @
        path_join (rundir i) (''netlist.'' @ str_or (output_format (params i)) ''json''))"
  by (simp only: SynthIce40_cmd_def SynthIce40_flags_def Let_def concat_append concat_flag_if
      concat_top_flag concat_SynthIce40_write append_assoc)

lemma SynthXilinx_cmd_emitted:
  "SynthXilinx_cmd i =
     ''synth_xilinx -family '' @ str_or (family (params i)) ''xc7'' @
     emitted (str_truthy (top_p (params i))) ('' -top '' @ str_or (top_p (params i)) []) @
     emitted (truthy (flatten (params i))) '' -flatten'' @
     emitted (truthy (dff (params i))) '' -dff'' @
     emitted (truthy (retime (params i))) '' -retime'' @
     emitted (truthy (nobram (params i))) '' -nobram'' @
     emitted (truthy (nodsp (params i))) '' -nodsp'' @
     emitted (truthy (noiopad (params i))) '' -noiopad'' @
     emitted (truthy (noclkbuf (params i))) '' -noclkbuf'' @
     emitted (truthy (abc9 (params i))) '' -abc9'' @
     emitted (str_or (output_format (params i)) ''json'' \<in> set [''json'', ''edif'', ''blif''])
       ('' -'' @ str_or (output_format (params i)) ''json'' @ '' '' @
        path_join (rundir i) (''netlist.'' @ str_or (output_format (params i)) ''json''))"
  by (simp only: SynthXilinx_cmd_def SynthXilinx_flags_def Let_def concat_append concat_flag_if
      concat_top_flag concat_SynthXilinx_write append_assoc)

lemma SynthLattice_cmd_emitted:
  "SynthLattice_cmd i =
     ''synth_lattice -family '' @ str_or (family (params i)) ''ecp5'' @
     emitted (str_truthy (top_p (params i))) ('' -top '' @ str_or (top_p (params i)) []) @
     emitted (truthy (dff (params i))) '' -dff'' @
     emitted (truthy (retime (params i))) '' -retime'' @
     emitted (str_or (output_format (params i)) ''json'' \<in> set [''json'', ''edif''])
       ('' -'' @ str_or (output_format (params i)) ''json'' @ '' '' @
        path_join (rundir i) (''netlist.'' @ str_or (output_format (params i)) ''json''))"
  by (simp only: SynthLattice_cmd_def SynthLattice_flags_def Let_def concat_append
      concat_flag_if concat_top_flag concat_SynthLattice_write append_assoc)

lemma SynthGowin_cmd_emitted:
  "SynthGowin_cmd i =
     ''synth_gowin'' @
     emitted (str_truthy (top_p (params i))) ('' -top '' @ str_or (top_p (params i)) []) @
     emitted (str_or (output_format (params i)) ''json'' = ''json'')
       ('' -json '' @
        path_join (rundir i) (''netlist.'' @ str_or (output_format (params i)) ''json'')) @
     emitted (str_or (output_format (params i)) ''json'' = ''verilog'')
       ('' -vout '' @
        path_join (rundir i) (''netlist.'' @ str_or (output_format (params i)) ''json''))"
  by (simp only: SynthGowin_cmd_def SynthGowin_flags_def Let_def concat_append
      concat_top_flag concat_SynthGowin_write append_assoc)

lemma hierarchy_cmd_emitted:
  "hierarchy_cmd t =
     ''hierarchy'' @ emitted (str_truthy t) ('' -top '' @ str_or t []) @
     emitted (\<not> str_truthy t) '' -auto-top''"
  by (cases t) (simp_all add: hierarchy_cmd_def emitted_def str_truthy_def str_or_def)

lemma smt2_cmd_emitted:
  "smt2_cmd p =
     ''write_smt2'' @
     emitted (truthy (bv p)) '' -bv'' @
     emitted (truthy (mem p)) '' -mem'' @
     emitted (truthy (wires p)) '' -wires''"
  by (simp only: smt2_cmd_def smt2_flags_def concat_append concat_flag_if)

text \<open>The directive of each task is one of the chunks written to its script, and the
  script content is the content of the file these chunks are written to.\<close>

lemma Synth_cmd_in_writes: "Synth_cmd (params i) \<in> set (Synth_writes i)"
  by (cases "collect_rtl (inputs i)" rule: prod_cases3) (simp add: Synth_writes_def Let_def)

lemma SynthXilinx_cmd_in_writes: "SynthXilinx_cmd i \<in> set (SynthXilinx_writes i)"
  by (cases "collect_rtl (inputs i)" rule: prod_cases3) (simp add: SynthXilinx_writes_def)

lemma SynthLattice_cmd_in_writes: "SynthLattice_cmd i \<in> set (SynthLattice_writes i)"
  by (cases "collect_rtl (inputs i)" rule: prod_cases3) (simp add: SynthLattice_writes_def)

lemma SynthGowin_cmd_in_writes: "SynthGowin_cmd i \<in> set (SynthGowin_writes i)"
  by (cases "collect_rtl (inputs i)" rule: prod_cases3) (simp add: SynthGowin_writes_def)

lemma formal_cmds_in_writes:
  "hierarchy_cmd (top_p (params i)) \<in> set (FormalPrepare_writes i)
   \<and> smt2_cmd (params i) @ '' '' @ path_join (rundir i) ''model.smt2''
       \<in> set (FormalPrepare_writes i)"
  by (cases "collect_rtl (inputs i)" rule: prod_cases3) (simp add: FormalPrepare_writes_def)

lemma script_content_writes:
  "script_content (Synth w i) = file_content (Synth_writes i)
   \<and> script_content (SynthIce40 w i) = file_content (SynthIce40_writes i)
   \<and> script_content (SynthXilinx w i) = file_content (SynthXilinx_writes i)
   \<and> script_content (SynthLattice w i) = file_content (SynthLattice_writes i)
   \<and> script_content (SynthGowin w i) = file_content (SynthGowin_writes i)
   \<and> script_content (FormalPrepare w i) = file_content (FormalPrepare_writes i)"
  by (simp add: Synth_def SynthIce40_def SynthXilinx_def SynthLattice_def SynthGowin_def
      FormalPrepare_def Let_def)

text \<open>
  Counterexample to claim C3 as stated (a flag is present if and only if its parameter is
  truthy or explicitly set, and never when the parameter is absent). A parameter explicitly
  set to \<open>False\<close> is set and emits no flag: with \<open>flatten = False\<close> the generic script has
  the plain directive \<open>synth\<close>. With the device and the output format absent, the iCE40
  directive has the device flag and the embedded write flag of the defaults. With the output
  format explicitly set to \<open>verilog\<close>, which the iCE40 directive cannot write, it has no
  embedded write flag.
\<close>

theorem flag_presence_counterexample:
  "flatten (no_params\<lparr>flatten := Some False\<rparr>) = Some False
   \<and> script_content
       (Synth \<lparr>exec_status = 0, isfile = (\<lambda>f. True)\<rparr>
          \<lparr>name = ''synth'', rundir = ''/run'', inputs = [],
           params = no_params\<lparr>flatten := Some False\<rparr>\<rparr>)
     = file_content [''synth'', ''opt_clean'', ''stat'', ''write_json /run/netlist.json'']
   \<and> output_format no_params = None
   \<and> device no_params = None
   \<and> script_content
       (SynthIce40 \<lparr>exec_status = 0, isfile = (\<lambda>f. True)\<rparr>
          \<lparr>name = ''synth'', rundir = ''/run'', inputs = [], params = no_params\<rparr>)
     = file_content [''synth_ice40 -device hx -json /run/netlist.json'']
   \<and> output_format (no_params\<lparr>output_format := Some ''verilog''\<rparr>) = Some ''verilog''
   \<and> script_content
       (SynthIce40 \<lparr>exec_status = 0, isfile = (\<lambda>f. True)\<rparr>
          \<lparr>name = ''synth'', rundir = ''/run'', inputs = [],
           params = no_params\<lparr>output_format := Some ''verilog''\<rparr>\<rparr>)
     = file_content [''synth_ice40 -device hx'']"
  by (simp add: no_params_def Synth_def Synth_writes_def Synth_cmd_def Synth_flags_def
      Synth_write_def SynthIce40_def SynthIce40_writes_def SynthIce40_cmd_def
      SynthIce40_flags_def SynthIce40_write_def collect_rtl_def path_join_def endswith_sep_def
      write_read_cmds_def read_liberty_cmds_def Let_def str_or_def top_flag_def flag_if_def
      truthy_def list_or_empty_def)

text \<open>
  Claim C3, amended. For every parameter set and every task, the synthesis directive written
  to the script (in the formal task the hierarchy directive and the \<open>write_smt2\<close>
  directive) is its head followed, in the fixed order of the task, by each optional flag
  exactly when the parameter of the flag is truthy: \<open>True\<close>, or for the top module a
  non-empty string. A parameter that is absent, or explicitly set to \<open>False\<close> or to the
  empty string, emits no flag (in the hierarchy directive, \<open>-auto-top\<close> takes the place of
  the top flag). The device or family flag and the embedded write flag are populated by
  defaults: the device or family flag is always emitted, with \<open>hx\<close>, \<open>xc7\<close> or \<open>ecp5\<close>
  when the parameter is absent or empty, and the embedded write flag is emitted exactly when
  the format, \<open>json\<close> when the parameter is absent or empty, is one the family supports.
\<close>

theorem flags_emitted_iff_truthy:
  assumes "p = params i"
    and "topf = emitted (str_truthy (top_p p)) ('' -top '' @ str_or (top_p p) [])"
    and "fmt = str_or (output_format p) ''json''"
    and "out = path_join (rundir i) (''netlist.'' @ fmt)"
  shows "Synth_cmd p =
           ''synth'' @ topf @
           emitted (truthy (flatten p)) '' -flatten'' @
           emitted (truthy (nofsm p)) '' -nofsm'' @
           emitted (truthy (noabc p)) '' -noabc'' @
           emitted (truthy (retime p)) '' -retime''
       \<and> Synth_cmd p \<in> set (Synth_writes i)
       \<and> script_content (Synth w i) = file_content (Synth_writes i)
       \<and> SynthIce40_cmd i =
           ''synth_ice40 -device '' @ str_or (device p) ''hx'' @ topf @
           emitted (truthy (dff p)) '' -dff'' @
           emitted (truthy (retime p)) '' -retime'' @
           emitted (truthy (nocarry p)) '' -nocarry'' @
           emitted (truthy (nobram p)) '' -nobram'' @
           emitted (truthy (dsp p)) '' -dsp'' @
           emitted (truthy (abc9 p)) '' -abc9'' @
           emitted (fmt \<in> set [''json'', ''blif'', ''edif'']) ('' -'' @ fmt @ '' '' @ out)
       \<and> SynthIce40_cmd i \<in> set (SynthIce40_writes i)
       \<and> script_content (SynthIce40 w i) = file_content (SynthIce40_writes i)
       \<and> SynthXilinx_cmd i =
           ''synth_xilinx -family '' @ str_or (family p) ''xc7'' @ topf @
           emitted (truthy (flatten p)) '' -flatten'' @
           emitted (truthy (dff p)) '' -dff'' @
           emitted (truthy (retime p)) '' -retime'' @
           emitted (truthy (nobram p)) '' -nobram'' @
           emitted (truthy (nodsp p)) '' -nodsp'' @
           emitted (truthy (noiopad p)) '' -noiopad'' @
           emitted (truthy (noclkbuf p)) '' -noclkbuf'' @
           emitted (truthy (abc9 p)) '' -abc9'' @
           emitted (fmt \<in> set [''json'', ''edif'', ''blif'']) ('' -'' @ fmt @ '' '' @ out)
       \<and> SynthXilinx_cmd i \<in> set (SynthXilinx_writes i)
       \<and> script_content (SynthXilinx w i) = file_content (SynthXilinx_writes i)
       \<and> SynthLattice_cmd i =
           ''synth_lattice -family '' @ str_or (family p) ''ecp5'' @ topf @
           emitted (truthy (dff p)) '' -dff'' @
           emitted (truthy (retime p)) '' -retime'' @
           emitted (fmt \<in> set [''json'', ''edif'']) ('' -'' @ fmt @ '' '' @ out)
       \<and> SynthLattice_cmd i \<in> set (SynthLattice_writes i)
       \<and> script_content (SynthLattice w i) = file_content (SynthLattice_writes i)
       \<and> SynthGowin_cmd i =
           ''synth_gowin'' @ topf @
           emitted (fmt = ''json'') ('' -json '' @ out) @
           emitted (fmt = ''verilog'') ('' -vout '' @ out)
       \<and> SynthGowin_cmd i \<in> set (SynthGowin_writes i)
       \<and> script_content (SynthGowin w i) = file_content (SynthGowin_writes i)
       \<and> hierarchy_cmd (top_p p) =
           ''hierarchy'' @ topf @ emitted (\<not> str_truthy (top_p p)) '' -auto-top''
       \<and> hierarchy_cmd (top_p p) \<in> set (FormalPrepare_writes i)
       \<and> smt2_cmd p =
           ''write_smt2'' @
           emitted (truthy (bv p)) '' -bv'' @
           emitted (truthy (mem p)) '' -mem'' @
           emitted (truthy (wires p)) '' -wires''
       \<and> smt2_cmd p @ '' '' @ path_join (rundir i) ''model.smt2''
            \<in> set (FormalPrepare_writes i)
       \<and> script_content (FormalPrepare w i) = file_content (FormalPrepare_writes i)"
  unfolding assms
  using Synth_cmd_emitted [of "params i"] SynthIce40_cmd_emitted [of i]
    SynthXilinx_cmd_emitted [of i] SynthLattice_cmd_emitted [of i] SynthGowin_cmd_emitted [of i]
    hierarchy_cmd_emitted [of "top_p (params i)"] smt2_cmd_emitted [of "params i"]
    Synth_cmd_in_writes [of i] SynthIce40_cmd_in_writes [of i] SynthXilinx_cmd_in_writes [of i]
    SynthLattice_cmd_in_writes [of i] SynthGowin_cmd_in_writes [of i]
    formal_cmds_in_writes [of i] script_content_writes [of w i]
  by blast

theorem flags_emitted_iff_truthy_witness:
  "SynthXilinx_cmd \<lparr>name = ''synth'', rundir = ''/run'', inputs = [],
      params = no_params\<lparr>top_p := Some ''cpu'', flatten := Some True, dff := Some False,
                          abc9 := Some True\<rparr>\<rparr>
   = ''synth_xilinx -family xc7 -top cpu -flatten -abc9 -json /run/netlist.json''
   \<and> Synth_cmd (no_params\<lparr>flatten := Some False, top_p := Some []\<rparr>) = ''synth''
   \<and> hierarchy_cmd (top_p (no_params\<lparr>flatten := Some False, top_p := Some []\<rparr>))
       = ''hierarchy -auto-top''
   \<and> smt2_cmd (no_params\<lparr>bv := Some True, wires := Some True\<rparr>) = ''write_smt2 -bv -wires''"
  using
    flags_emitted_iff_truthy [OF refl refl refl refl,
      where i = "\<lparr>name = ''synth'', rundir = ''/run'', inputs = [],
        params = no_params\<lparr>top_p := Some ''cpu'', flatten := Some True, dff := Some False,
                            abc9 := Some True\<rparr>\<rparr>"
        and w = "\<lparr>exec_status = 0, isfile = (\<lambda>f. True)\<rparr>"]
    flags_emitted_iff_truthy [OF refl refl refl refl,
      where i = "\<lparr>name = ''synth'', rundir = ''/run'', inputs = [],
        params = no_params\<lparr>flatten := Some False, top_p := Some []\<rparr>\<rparr>"
        and w = "\<lparr>exec_status = 0, isfile = (\<lambda>f. True)\<rparr>"]
    flags_emitted_iff_truthy [OF refl refl refl refl,
      where i = "\<lparr>name = ''formal'', rundir = ''/run'', inputs = [],
        params = no_params\<lparr>bv := Some True, wires := Some True\<rparr>\<rparr>"
        and w = "\<lparr>exec_status = 0, isfile = (\<lambda>f. True)\<rparr>"]
  by (simp add: emitted_def no_params_def truthy_def str_truthy_def str_or_def path_join_def
      endswith_sep_def)

section \<open>Read directives of the formal task\<close>

text \<open>
  Counterexample to claim C4 as stated (every read directive of the formal task, for
  include directories too, carries \<open>-formal\<close>). The directive of an include directory is
  \<open>read_verilog -incdir <dir>\<close>, without it.
\<close>

theorem formal_incdir_counterexample:
  "FormalPrepare_writes
     \<lparr>name = ''formal'', rundir = ''/run'',
      inputs = [\<lparr>fs_type = ''std.FileSet'', fs_filetype = ''verilogSource'',
                 fs_basedir = ''/d'', fs_files = [''a.v''], fs_incdirs = [''inc'']\<rparr>],
      params = no_params\<rparr>
   = [''read_verilog -incdir /d/inc'', ''read_verilog -formal /d/a.v'',
      ''hierarchy -auto-top'', ''proc'', ''opt'', ''memory -nordff -nomap'', ''opt -fast'',
      ''write_smt2 /run/model.smt2'']
   \<and> \<not> startswith ''read_verilog -incdir /d/inc'' ''read_verilog -formal''"
  by (simp add: no_params_def FormalPrepare_writes_def formal_read_cmds_def hierarchy_cmd_def
      smt2_cmd_def smt2_flags_def collect_rtl_def collect_fs_def path_join_def endswith_sep_def
      flag_if_def truthy_def list_or_empty_def startswith_def)

text \<open>
  Claim C4, amended. In the formal task the script starts with one directive
  \<open>read_verilog -incdir <dir>\<close> for each include directory, which does not carry the
  formal flag, followed by one read directive for each source, and every one of these,
  whatever the source type, starts with \<open>read_verilog -formal\<close>.
\<close>

theorem formal_source_reads_flagged:
  assumes "collect_rtl (inputs i) = (sources, incdirs, libs)"
  shows "take (length incdirs + length sources) (FormalPrepare_writes i) =
           map (\<lambda>d. ''read_verilog -incdir '' @ d) incdirs @
           map (\<lambda>(path, is_sv).
                  ''read_verilog -formal'' @ (if is_sv then '' -sv'' else []) @ '' '' @ path)
             sources
       \<and> (\<forall>k < length sources.
             startswith (FormalPrepare_writes i ! (length incdirs + k)) ''read_verilog -formal'')
       \<and> (\<forall>k < length incdirs.
             FormalPrepare_writes i ! k = ''read_verilog -incdir '' @ incdirs ! k
             \<and> \<not> startswith (FormalPrepare_writes i ! k) ''read_verilog -formal'')"
proof -
  let ?inc = "map (\<lambda>d. ''read_verilog -incdir '' @ d) incdirs"
  let ?src = "map (\<lambda>(path, is_sv).
                  ''read_verilog -formal'' @ (if is_sv then '' -sv'' else []) @ '' '' @ path)
             sources"
  obtain rest where w: "FormalPrepare_writes i = ?inc @ ?src @ rest"
    using assms by (simp add: FormalPrepare_writes_def formal_read_cmds_def)
  have 1: "take (length incdirs + length sources) (FormalPrepare_writes i) = ?inc @ ?src"
    by (simp add: w)
  have 2: "startswith (FormalPrepare_writes i ! (length incdirs + k)) ''read_verilog -formal''"
    if "k < length sources" for k
  proof -
    have "FormalPrepare_writes i ! (length incdirs + k) = ?src ! k"
      using that by (simp add: w nth_append)
    then show ?thesis
      using that by (cases "sources ! k") (simp add: startswith_def)
  qed
  have 3: "FormalPrepare_writes i ! k = ''read_verilog -incdir '' @ incdirs ! k
           \<and> \<not> startswith (FormalPrepare_writes i ! k) ''read_verilog -formal''"
    if "k < length incdirs" for k
    using that by (simp add: w nth_append startswith_def)
  show ?thesis
    using 1 2 3 by blast
qed

theorem formal_source_reads_flagged_witness:
  "collect_rtl (inputs
     \<lparr>name = ''formal'', rundir = ''/run'',
      inputs = [\<lparr>fs_type = ''std.FileSet'', fs_filetype = ''verilogSource'',
                 fs_basedir = ''/d'', fs_files = [''a.v''], fs_incdirs = [''inc'']\<rparr>,
                \<lparr>fs_type = ''std.FileSet'', fs_filetype = ''systemVerilogSource'',
                 fs_basedir = ''/d'', fs_files = [''b.sv''], fs_incdirs = []\<rparr>],
      params = no_params\<rparr>)
   = ([(''/d/a.v'', False), (''/d/b.sv'', True)], [''/d/inc''], [])
   \<and> take 3 (FormalPrepare_writes
     \<lparr>name = ''formal'', rundir = ''/run'',
      inputs = [\<lparr>fs_type = ''std.FileSet'', fs_filetype = ''verilogSource'',
                 fs_basedir = ''/d'', fs_files = [''a.v''], fs_incdirs = [''inc'']\<rparr>,
                \<lparr>fs_type = ''std.FileSet'', fs_filetype = ''systemVerilogSource'',
                 fs_basedir = ''/d'', fs_files = [''b.sv''], fs_incdirs = []\<rparr>],
      params = no_params\<rparr>)
   = [''read_verilog -incdir /d/inc'', ''read_verilog -formal /d/a.v'',
      ''read_verilog -formal -sv /d/b.sv'']"
proof -
  let ?i = "\<lparr>name = ''formal'', rundir = ''/run'',
      inputs = [\<lparr>fs_type = ''std.FileSet'', fs_filetype = ''verilogSource'',
                 fs_basedir = ''/d'', fs_files = [''a.v''], fs_incdirs = [''inc'']\<rparr>,
                \<lparr>fs_type = ''std.FileSet'', fs_filetype = ''systemVerilogSource'',
                 fs_basedir = ''/d'', fs_files = [''b.sv''], fs_incdirs = []\<rparr>],
      params = no_params\<rparr>"
  have c: "collect_rtl (inputs ?i) = ([(''/d/a.v'', False), (''/d/b.sv'', True)], [''/d/inc''], [])"
    by (simp add: collect_rtl_def collect_fs_def path_join_def endswith_sep_def)
  have "take (length [''/d/inc''] + length [(''/d/a.v'', False), (''/d/b.sv'', True)])
          (FormalPrepare_writes ?i)
        = [''read_verilog -incdir /d/inc'', ''read_verilog -formal /d/a.v'',
           ''read_verilog -formal -sv /d/b.sv'']"
    using formal_source_reads_flagged [OF c] by simp
  then have "take 3 (FormalPrepare_writes ?i)
        = [''read_verilog -incdir /d/inc'', ''read_verilog -formal /d/a.v'',
           ''read_verilog -formal -sv /d/b.sv'']"
    by (simp add: numeral_3_eq_3)
  with c show ?thesis
    by (rule conjI)
qed

section \<open>Attributes of the artifact\<close>

text \<open>
  Counterexample to claim C5 as stated (in every task the format tag comes first). The
  formal task has no format
  parameter and its artifact no format tag: with top module \<open>t\<close> the attribute list is
  \<open>["top=t"]\<close>.
\<close>

theorem formal_attributes_counterexample:
  "map attributes (outputs (result
     (FormalPrepare \<lparr>exec_status = 0, isfile = (\<lambda>f. f = ''/run/model.smt2'')\<rparr>
        \<lparr>name = ''formal'', rundir = ''/run'', inputs = [],
         params = no_params\<lparr>top_p := Some ''t''\<rparr>\<rparr>)))
   = [[''top=t'']]"
  by (simp add: no_params_def FormalPrepare_def resolve_def top_attr_def path_join_def
      endswith_sep_def Let_def)

text \<open>
  Claim C5, amended. For every input on which an artifact is produced, its attribute list
  is in a fixed order. In the generic task, the four family tasks and the raw-script task
  the format tag is first, then the target and the device or family tag of the family tasks,
  then the top-module tag. In the formal task the list is the top-module tag alone. The
  top-module tag is present if and only if a non-empty top module was specified.
\<close>

theorem artifact_attribute_order:
  "(\<forall>a \<in> set (outputs (result (Synth w i))).
      attributes a = [''format='' @ str_or (output_format (params i)) ''json'']
                     @ top_attr (top_p (params i)))
   \<and> (\<forall>a \<in> set (outputs (result (SynthIce40 w i))).
      attributes a = [''format='' @ str_or (output_format (params i)) ''json'',
                      ''target=ice40'', ''device='' @ str_or (device (params i)) ''hx'']
                     @ top_attr (top_p (params i)))
   \<and> (\<forall>a \<in> set (outputs (result (SynthXilinx w i))).
      attributes a = [''format='' @ str_or (output_format (params i)) ''json'',
                      ''target=xilinx'', ''family='' @ str_or (family (params i)) ''xc7'']
                     @ top_attr (top_p (params i)))
   \<and> (\<forall>a \<in> set (outputs (result (SynthLattice w i))).
      attributes a = [''format='' @ str_or (output_format (params i)) ''json'',
                      ''target=lattice'', ''family='' @ str_or (family (params i)) ''ecp5'']
                     @ top_attr (top_p (params i)))
   \<and> (\<forall>a \<in> set (outputs (result (SynthGowin w i))).
      attributes a = [''format='' @ str_or (output_format (params i)) ''json'',
                      ''target=gowin'']
                     @ top_attr (top_p (params i)))
   \<and> (\<forall>a \<in> set (outputs (result (Script w i))).
      attributes a = [''format='' @ str_or (output_format (params i)) []]
                     @ top_attr (top_p (params i)))
   \<and> (\<forall>a \<in> set (outputs (result (FormalPrepare w i))).
      attributes a = top_attr (top_p (params i)))
   \<and> (top_attr t \<noteq> [] \<longleftrightarrow> str_truthy t)
   \<and> (\<forall>v. t = Some v \<and> v \<noteq> [] \<longrightarrow> top_attr t = [''top='' @ v])"
proof (intro conjI)
  show "top_attr t \<noteq> [] \<longleftrightarrow> str_truthy t"
    by (cases t) (simp_all add: top_attr_def str_truthy_def)
  show "\<forall>v. t = Some v \<and> v \<noteq> [] \<longrightarrow> top_attr t = [''top='' @ v]"
    by (simp add: top_attr_def)
  show "\<forall>a \<in> set (outputs (result (Script w i))).
      attributes a = [''format='' @ str_or (output_format (params i)) []]
                     @ top_attr (top_p (params i))"
    by (simp add: Script_def Let_def)
qed (simp_all add: Synth_def SynthIce40_def SynthXilinx_def SynthLattice_def SynthGowin_def
      FormalPrepare_def Let_def resolve_def)

theorem artifact_attribute_order_witness:
  "map attributes (outputs (result
     (SynthIce40 \<lparr>exec_status = 0, isfile = (\<lambda>f. f = ''/run/netlist.json'')\<rparr>
        \<lparr>name = ''synth'', rundir = ''/run'', inputs = [],
         params = no_params\<lparr>top_p := Some ''cpu''\<rparr>\<rparr>)))
   = [[''format=json'', ''target=ice40'', ''device=hx'', ''top=cpu'']]
   \<and> map attributes (outputs (result
     (SynthGowin \<lparr>exec_status = 0, isfile = (\<lambda>f. f = ''/run/netlist.json'')\<rparr>
        \<lparr>name = ''synth'', rundir = ''/run'', inputs = [], params = no_params\<rparr>)))
   = [[''format=json'', ''target=gowin'']]"
proof -
  let ?w = "\<lparr>exec_status = 0, isfile = (\<lambda>f. f = ''/run/netlist.json'')\<rparr>"
  let ?i = "\<lparr>name = ''synth'', rundir = ''/run'', inputs = [],
         params = no_params\<lparr>top_p := Some ''cpu''\<rparr>\<rparr>"
  let ?j = "\<lparr>name = ''synth'', rundir = ''/run'', inputs = [], params = no_params\<rparr>"
  have 1: "length (outputs (result (SynthIce40 ?w ?i))) = 1"
    by (simp add: SynthIce40_def resolve_def no_params_def str_or_def path_join_def
        endswith_sep_def Let_def)
  have 2: "length (outputs (result (SynthGowin ?w ?j))) = 1"
    by (simp add: SynthGowin_def resolve_def no_params_def str_or_def path_join_def
        endswith_sep_def Let_def)
  obtain a where a: "outputs (result (SynthIce40 ?w ?i)) = [a]"
    using 1 by (cases "outputs (result (SynthIce40 ?w ?i))") auto
  obtain b where b: "outputs (result (SynthGowin ?w ?j)) = [b]"
    using 2 by (cases "outputs (result (SynthGowin ?w ?j))") auto
  show ?thesis
    using artifact_attribute_order [of ?w ?i "Some ''cpu''"]
      artifact_attribute_order [of ?w ?j None] a b
    by (simp add: no_params_def str_or_def top_attr_def)
qed

section \<open>Formats a family does not support\<close>

lemma resolve_nonempty:
  "resolve w i ft f attrs \<noteq> [] \<longleftrightarrow> exec_status w = 0 \<and> isfile w (path_join (rundir i) f)"
  by (simp add: resolve_def)

text \<open>
  Counterexample to claim C7 as stated (with an unsupported format no artifact is produced
  at any exit status). The output list depends on the status and on the file only: with format \<open>edif\<close> in the
  Gowin task the directive has no write flag, and when \<open>netlist.edif\<close> exists after a run
  of status 0 (here a trailing directive of the caller's writes it) the artifact is produced.
\<close>

theorem unsupported_format_counterexample:
  "SynthGowin_writes
     \<lparr>name = ''synth'', rundir = ''/run'', inputs = [],
      params = no_params\<lparr>output_format := Some ''edif'',
                          args := Some [''write_edif /run/netlist.edif'']\<rparr>\<rparr>
   = [''synth_gowin'', ''write_edif /run/netlist.edif'']
   \<and> outputs (result
       (SynthGowin \<lparr>exec_status = 0, isfile = (\<lambda>f. f = ''/run/netlist.edif'')\<rparr>
          \<lparr>name = ''synth'', rundir = ''/run'', inputs = [],
           params = no_params\<lparr>output_format := Some ''edif'',
                               args := Some [''write_edif /run/netlist.edif'']\<rparr>\<rparr>))
     = [\<lparr>src = ''synth'', filetype = ''yosysNetlist'', basedir = ''/run'',
         files = [''netlist.edif''], attributes = [''format=edif'', ''target=gowin'']\<rparr>]"
  by (simp add: no_params_def SynthGowin_def SynthGowin_writes_def SynthGowin_cmd_def
      SynthGowin_flags_def SynthGowin_write_def collect_rtl_def write_read_cmds_def
      resolve_def top_attr_def top_flag_def str_or_def list_or_empty_def path_join_def
      endswith_sep_def Let_def)

text \<open>
  Claim C7, amended. In a family task given a format that the family does not support, the
  synthesis directive is the directive name, the device or family, and the optional flags,
  with no write flag; an artifact is produced if and only if the status is 0 and
  \<open>netlist.<format>\<close> nevertheless exists in the run directory.
\<close>

theorem unsupported_format_no_write_flag:
  assumes "fmt = str_or (output_format (params i)) ''json''"
  shows "(fmt \<notin> {''json'', ''blif'', ''edif''} \<longrightarrow>
            SynthIce40_cmd i = ''synth_ice40 -device '' @ str_or (device (params i)) ''hx''
                               @ concat (SynthIce40_flags (params i))
            \<and> (outputs (result (SynthIce40 w i)) \<noteq> [] \<longleftrightarrow>
                 exec_status w = 0 \<and> isfile w (path_join (rundir i) (''netlist.'' @ fmt))))
       \<and> (fmt \<notin> {''json'', ''edif'', ''blif''} \<longrightarrow>
            SynthXilinx_cmd i = ''synth_xilinx -family '' @ str_or (family (params i)) ''xc7''
                                @ concat (SynthXilinx_flags (params i))
            \<and> (outputs (result (SynthXilinx w i)) \<noteq> [] \<longleftrightarrow>
                 exec_status w = 0 \<and> isfile w (path_join (rundir i) (''netlist.'' @ fmt))))
       \<and> (fmt \<notin> {''json'', ''edif''} \<longrightarrow>
            SynthLattice_cmd i = ''synth_lattice -family '' @ str_or (family (params i)) ''ecp5''
                                 @ concat (SynthLattice_flags (params i))
            \<and> (outputs (result (SynthLattice w i)) \<noteq> [] \<longleftrightarrow>
                 exec_status w = 0 \<and> isfile w (path_join (rundir i) (''netlist.'' @ fmt))))
       \<and> (fmt \<notin> {''json'', ''verilog''} \<longrightarrow>
            SynthGowin_cmd i = ''synth_gowin'' @ concat (SynthGowin_flags (params i))
            \<and> (outputs (result (SynthGowin w i)) \<noteq> [] \<longleftrightarrow>
                 exec_status w = 0 \<and> isfile w (path_join (rundir i) (''netlist.'' @ fmt))))"
proof (intro conjI impI)
  assume "fmt \<notin> {''json'', ''blif'', ''edif''}"
  then show "SynthIce40_cmd i = ''synth_ice40 -device '' @ str_or (device (params i)) ''hx''
                               @ concat (SynthIce40_flags (params i))"
    using assms by (simp add: SynthIce40_cmd_def SynthIce40_write_def Let_def)
next
  assume "fmt \<notin> {''json'', ''edif'', ''blif''}"
  then show "SynthXilinx_cmd i = ''synth_xilinx -family '' @ str_or (family (params i)) ''xc7''
                                @ concat (SynthXilinx_flags (params i))"
    using assms by (simp add: SynthXilinx_cmd_def SynthXilinx_write_def Let_def)
next
  assume "fmt \<notin> {''json'', ''edif''}"
  then show "SynthLattice_cmd i = ''synth_lattice -family '' @ str_or (family (params i)) ''ecp5''
                                 @ concat (SynthLattice_flags (params i))"
    using assms by (simp add: SynthLattice_cmd_def SynthLattice_write_def Let_def)
next
  assume "fmt \<notin> {''json'', ''verilog''}"
  then show "SynthGowin_cmd i = ''synth_gowin'' @ concat (SynthGowin_flags (params i))"
    using assms by (simp add: SynthGowin_cmd_def SynthGowin_write_def Let_def)
next
  show "outputs (result (SynthIce40 w i)) \<noteq> [] \<longleftrightarrow>
          exec_status w = 0 \<and> isfile w (path_join (rundir i) (''netlist.'' @ fmt))"
    using assms by (simp add: SynthIce40_def Let_def resolve_nonempty)
  show "outputs (result (SynthXilinx w i)) \<noteq> [] \<longleftrightarrow>
          exec_status w = 0 \<and> isfile w (path_join (rundir i) (''netlist.'' @ fmt))"
    using assms by (simp add: SynthXilinx_def Let_def resolve_nonempty)
  show "outputs (result (SynthLattice w i)) \<noteq> [] \<longleftrightarrow>
          exec_status w = 0 \<and> isfile w (path_join (rundir i) (''netlist.'' @ fmt))"
    using assms by (simp add: SynthLattice_def Let_def resolve_nonempty)
  show "outputs (result (SynthGowin w i)) \<noteq> [] \<longleftrightarrow>
          exec_status w = 0 \<and> isfile w (path_join (rundir i) (''netlist.'' @ fmt))"
    using assms by (simp add: SynthGowin_def Let_def resolve_nonempty)
qed

theorem unsupported_format_no_write_flag_witness:
  "SynthGowin_cmd \<lparr>name = ''synth'', rundir = ''/run'', inputs = [],
      params = no_params\<lparr>top_p := Some ''cpu'', output_format := Some ''rtlil''\<rparr>\<rparr>
   = ''synth_gowin -top cpu''
   \<and> SynthIce40_cmd \<lparr>name = ''synth'', rundir = ''/run'', inputs = [],
      params = no_params\<lparr>top_p := Some ''cpu'', output_format := Some ''rtlil''\<rparr>\<rparr>
   = ''synth_ice40 -device hx -top cpu''
   \<and> SynthXilinx_cmd \<lparr>name = ''synth'', rundir = ''/run'', inputs = [],
      params = no_params\<lparr>top_p := Some ''cpu'', output_format := Some ''rtlil''\<rparr>\<rparr>
   = ''synth_xilinx -family xc7 -top cpu''
   \<and> SynthLattice_cmd \<lparr>name = ''synth'', rundir = ''/run'', inputs = [],
      params = no_params\<lparr>top_p := Some ''cpu'', output_format := Some ''rtlil''\<rparr>\<rparr>
   = ''synth_lattice -family ecp5 -top cpu''
   \<and> outputs (result
       (SynthGowin \<lparr>exec_status = 0, isfile = (\<lambda>f. False)\<rparr>
          \<lparr>name = ''synth'', rundir = ''/run'', inputs = [],
           params = no_params\<lparr>top_p := Some ''cpu'', output_format := Some ''rtlil''\<rparr>\<rparr>))
     = []"
  using unsupported_format_no_write_flag
    [of "''rtlil''"
        "\<lparr>name = ''synth'', rundir = ''/run'', inputs = [],
          params = no_params\<lparr>top_p := Some ''cpu'', output_format := Some ''rtlil''\<rparr>\<rparr>"
        "\<lparr>exec_status = 0, isfile = (\<lambda>f. False)\<rparr>"]
  by (simp add: no_params_def str_or_def SynthIce40_flags_def SynthXilinx_flags_def
      SynthLattice_flags_def SynthGowin_flags_def top_flag_def flag_if_def truthy_def)

end
